theory Spec2Isabelle
  imports Main "HOL-Library.Word"
begin

section \<open>JavaScript values read by the two components\<close>

text \<open>
  A JavaScript string is a sequence of 16-bit code units. Literals of the source are
  written with \<open>js_str\<close>, which maps an ASCII literal to its code units.
\<close>

type_synonym js_string = "16 word list"

definition js_str :: "string \<Rightarrow> js_string" where
  "js_str s = map of_char s"

text \<open>
  The values \<open>res.json()\<close> can yield, plus \<open>undefined\<close> for absent properties.
  Numbers are the integers of the collaborator contract; an object is the list of its
  own properties.
\<close>

datatype jsval =
    JUndefined
  | JNull
  | JBool bool
  | JNum int
  | JStr js_string
  | JArr "jsval list"
  | JObj "(js_string \<times> jsval) list"

text \<open>What can be thrown, or reject a promise.\<close>

datatype js_error = TypeError | SyntaxError | Thrown jsval

text \<open>The result of \<open>await p\<close>: the value, or the rejection that \<open>await\<close> rethrows.\<close>

datatype 'a settled = Fulfilled 'a | Rejected js_error

text \<open>ToBoolean, as \<open>if\<close>, \<open>&&\<close>, \<open>||\<close> and \<open>!\<close> apply it.\<close>

fun truthy :: "jsval \<Rightarrow> bool" where
  "truthy JUndefined = False"
| "truthy JNull = False"
| "truthy (JBool b) = b"
| "truthy (JNum n) = (n \<noteq> 0)"
| "truthy (JStr s) = (s \<noteq> [])"
| "truthy (JArr xs) = True"
| "truthy (JObj fs) = True"

text \<open>\<open>a || b\<close>\<close>

definition js_or :: "jsval \<Rightarrow> jsval \<Rightarrow> jsval" where
  "js_or a b = (if truthy a then a else b)"

text \<open>
  \<open>v.k\<close> for the property names the source reads (\<open>data\<close>, \<open>records\<close>,
  \<open>total_count\<close>, \<open>total_pages\<close>): a TypeError on \<open>undefined\<close> and \<open>null\<close>, the own
  property of an object or \<open>undefined\<close> when it has none, and \<open>undefined\<close> on a
  boolean, number, string or array, whose prototypes define none of these names.
\<close>

fun get_prop :: "jsval \<Rightarrow> js_string \<Rightarrow> js_error + jsval" where
  "get_prop JUndefined k = Inl TypeError"
| "get_prop JNull k = Inl TypeError"
| "get_prop (JObj fs) k = Inr (case map_of fs k of None \<Rightarrow> JUndefined | Some v \<Rightarrow> v)"
| "get_prop v k = Inr JUndefined"

text \<open>A member chain \<open>v.k1.k2\<close>, left to right; the first TypeError ends it.\<close>

fun get_path :: "jsval \<Rightarrow> js_string list \<Rightarrow> js_error + jsval" where
  "get_path v [] = Inr v"
| "get_path v (k # ks) = (case get_prop v k of Inl e \<Rightarrow> Inl e | Inr w \<Rightarrow> get_path w ks)"

text \<open>
  \<open>String.prototype.trim\<close>: strips WhiteSpace and LineTerminator code points from both
  ends. All of them lie in the Basic Multilingual Plane, so the test is per code unit.
\<close>

definition js_whitespace :: "16 word \<Rightarrow> bool" where
  "js_whitespace c =
     (c = 0x0009 \<or> c = 0x000A \<or> c = 0x000B \<or> c = 0x000C \<or> c = 0x000D \<or> c = 0x0020
      \<or> c = 0x00A0 \<or> c = 0x1680 \<or> (0x2000 \<le> c \<and> c \<le> 0x200A) \<or> c = 0x2028
      \<or> c = 0x2029 \<or> c = 0x202F \<or> c = 0x205F \<or> c = 0x3000 \<or> c = 0xFEFF)"

definition trim :: "js_string \<Rightarrow> js_string" where
  "trim s = rev (dropWhile js_whitespace (rev (dropWhile js_whitespace s)))"

section \<open>The record-management dialog (first script block of TableModal.vue)\<close>

subsection \<open>Collaborators\<close>

text \<open>
  A fetch Response as the source reads it: \<open>res.ok\<close>, \<open>res.status\<close>, and what
  \<open>await res.json()\<close> settles to.
\<close>

record response =
  ok :: bool
  status :: int
  json :: "jsval settled"

text \<open>
  The module \<open>@/api\<close> is not part of the sources; its two functions are parameters.
  Each maps its arguments to what the awaited call settles to.
\<close>

record global_api =
  query_user_qa_record :: "int \<Rightarrow> int \<Rightarrow> response settled"
  delete_user_record :: "jsval list \<Rightarrow> response settled"

subsection \<open>State and effects\<close>

record pagination =
  page :: int
  pageSize :: int
  total :: jsval
  pageCount :: jsval

record modal_state =
  localShow :: bool
  tableData :: jsval
  loading :: bool
  checkedRowKeys :: "jsval list"
  pagination :: pagination

text \<open>What a handler does to the outside, in the order it does it.\<close>

datatype log_arg = LogValue jsval | LogError js_error

datatype effect =
    QueryCall int int
  | DeleteCall "jsval list"
  | ConsoleError js_string log_arg
  | EmitUpdateShow bool

text \<open>
  A handler run to completion maps the state to the state it leaves, the effects it had,
  and the error it threw (for an async function: rejected with), if any.
\<close>

type_synonym outcome = "modal_state \<times> effect list \<times> js_error option"

definition state_of :: "outcome \<Rightarrow> modal_state" where
  "state_of r = fst r"

definition effects_of :: "outcome \<Rightarrow> effect list" where
  "effects_of r = fst (snd r)"

definition thrown_of :: "outcome \<Rightarrow> js_error option" where
  "thrown_of r = snd (snd r)"

definition initial_modal :: "bool \<Rightarrow> modal_state" where
  "initial_modal show =
     \<lparr>localShow = show, tableData = JArr [], loading = False, checkedRowKeys = [],
      pagination = \<lparr>page = 1, pageSize = 8, total = JNum 0, pageCount = JNum 0\<rparr>\<rparr>"

subsection \<open>fetchData\<close>

text \<open>
  The three assignments of the failure branches:
  \<open>tableData.value = []; pagination.value.total = 0; pagination.value.pageCount = 0\<close>.
\<close>

definition reset_table :: "modal_state \<Rightarrow> modal_state" where
  "reset_table s =
     s\<lparr>tableData := JArr [],
       pagination := (pagination s)\<lparr>total := JNum 0, pageCount := JNum 0\<rparr>\<rparr>"

text \<open>
  The success branch, one assignment after the other; an assignment made before a throw
  stays made.
\<close>

definition assign_page :: "jsval \<Rightarrow> modal_state \<Rightarrow> modal_state \<times> js_error option" where
  "assign_page data s =
     (case get_path data [js_str ''data'', js_str ''records''] of
        Inl e \<Rightarrow> (s, Some e)
      | Inr records \<Rightarrow>
          let s1 = s\<lparr>tableData := js_or records (JArr [])\<rparr> in
          (case get_path data [js_str ''data'', js_str ''total_count''] of
             Inl e \<Rightarrow> (s1, Some e)
           | Inr total_count \<Rightarrow>
               let s2 = s1\<lparr>pagination := (pagination s1)\<lparr>total := js_or total_count (JNum 0)\<rparr>\<rparr> in
               (case get_path data [js_str ''data'', js_str ''total_pages''] of
                  Inl e \<Rightarrow> (s2, Some e)
                | Inr total_pages \<Rightarrow>
                    (s2\<lparr>pagination := (pagination s2)\<lparr>pageCount := js_or total_pages (JNum 0)\<rparr>\<rparr>,
                     None))))"

text \<open>The condition \<open>data && data.data\<close>: its value, or the TypeError of the member read.\<close>

definition data_and_envelope :: "jsval \<Rightarrow> js_error + jsval" where
  "data_and_envelope data = (if truthy data then get_prop data (js_str ''data'') else Inr data)"

text \<open>The body of \<open>if (res.ok) { ... } else { ... }\<close>.\<close>

definition handle_response :: "response \<Rightarrow> modal_state \<Rightarrow> outcome" where
  "handle_response res s =
     (if ok res then
        (case json res of
           Rejected e \<Rightarrow> (s, [], Some e)
         | Fulfilled data \<Rightarrow>
             (case data_and_envelope data of
                Inl e \<Rightarrow> (s, [], Some e)
              | Inr c \<Rightarrow>
                  if truthy c then
                    (case assign_page data s of (s', thrown) \<Rightarrow> (s', [], thrown))
                  else
                    (reset_table s,
                     [ConsoleError (js_str ''Unexpected data format:'') (LogValue data)], None)))
      else
        (reset_table s,
         [ConsoleError (js_str ''API request failed with status:'') (LogValue (JNum (status res)))],
         None))"

text \<open>The \<open>try\<close> block: the query with the current page and page size, then the response.\<close>

definition fetchData_try :: "global_api \<Rightarrow> modal_state \<Rightarrow> outcome" where
  "fetchData_try api s =
     (let call = QueryCall (page (pagination s)) (pageSize (pagination s)) in
      case query_user_qa_record api (page (pagination s)) (pageSize (pagination s)) of
        Rejected e \<Rightarrow> (s, [call], Some e)
      | Fulfilled res \<Rightarrow>
          (case handle_response res s of (s', effs, thrown) \<Rightarrow> (s', call # effs, thrown)))"

text \<open>The \<open>catch\<close> block.\<close>

definition fetchData_catch :: "js_error \<Rightarrow> modal_state \<Rightarrow> modal_state \<times> effect list" where
  "fetchData_catch e s =
     (reset_table s, [ConsoleError (js_str ''Error fetching data:'') (LogError e)])"

text \<open>
  \<open>fetchData\<close>: sets the loading flag, runs the \<open>try\<close> block, hands what it throws to
  the \<open>catch\<close> block, and clears the flag in \<open>finally\<close>.
\<close>

definition fetchData :: "global_api \<Rightarrow> modal_state \<Rightarrow> outcome" where
  "fetchData api s =
     (case fetchData_try api (s\<lparr>loading := True\<rparr>) of
        (s1, effs, None) \<Rightarrow> (s1\<lparr>loading := False\<rparr>, effs, None)
      | (s1, effs, Some e) \<Rightarrow>
          (case fetchData_catch e s1 of
             (s2, effs') \<Rightarrow> (s2\<lparr>loading := False\<rparr>, effs @ effs', None)))"

subsection \<open>The other handlers\<close>

definition close :: "modal_state \<Rightarrow> outcome" where
  "close s =
     (s\<lparr>localShow := False, pagination := (pagination s)\<lparr>page := 1\<rparr>\<rparr>,
      [EmitUpdateShow False], None)"

definition handleCheck :: "jsval list \<Rightarrow> modal_state \<Rightarrow> modal_state" where
  "handleCheck rowKeys s = s\<lparr>checkedRowKeys := rowKeys\<rparr>"

text \<open>
  \<open>deleteSelectedData\<close>: the awaited delete call is outside any \<open>try\<close>, so its rejection
  rejects the handler. \<open>fetchData()\<close> is called without \<open>await\<close>: what it does is
  done, its promise is dropped.
\<close>

definition deleteSelectedData :: "global_api \<Rightarrow> modal_state \<Rightarrow> outcome" where
  "deleteSelectedData api s =
     (if length (checkedRowKeys s) = 0 then (s, [], None)
      else
        (case delete_user_record api (checkedRowKeys s) of
           Rejected e \<Rightarrow> (s, [DeleteCall (checkedRowKeys s)], Some e)
         | Fulfilled res \<Rightarrow>
             if ok res then
               (case fetchData api s of
                  (s', effs, thrown) \<Rightarrow> (s', DeleteCall (checkedRowKeys s) # effs, None))
             else (s, [DeleteCall (checkedRowKeys s)], None)))"

definition handlePageChange :: "int \<Rightarrow> global_api \<Rightarrow> modal_state \<Rightarrow> outcome" where
  "handlePageChange p api s = fetchData api (s\<lparr>pagination := (pagination s)\<lparr>page := p\<rparr>\<rparr>)"

definition handlePageSizeChange :: "int \<Rightarrow> global_api \<Rightarrow> modal_state \<Rightarrow> outcome" where
  "handlePageSizeChange newPageSize api s =
     fetchData api
       (s\<lparr>pagination := (pagination s)\<lparr>pageSize := newPageSize, page := 1\<rparr>\<rparr>)"

text \<open>
  The watcher on \<open>props.show\<close>: a new value that differs from \<open>localShow\<close> is
  stored, and the dialog fetches when it is shown.
\<close>

definition watch_show :: "bool \<Rightarrow> global_api \<Rightarrow> modal_state \<Rightarrow> outcome" where
  "watch_show newVal api s =
     (if newVal \<noteq> localShow s then
        (if newVal then fetchData api (s\<lparr>localShow := newVal\<rparr>)
         else (s\<lparr>localShow := newVal\<rparr>, [], None))
      else (s, [], None))"

text \<open>The calls to the collaborators among a handler's effects.\<close>

fun query_calls :: "effect list \<Rightarrow> (int \<times> int) list" where
  "query_calls [] = []"
| "query_calls (QueryCall p n # es) = (p, n) # query_calls es"
| "query_calls (e # es) = query_calls es"

fun delete_calls :: "effect list \<Rightarrow> jsval list list" where
  "delete_calls [] = []"
| "delete_calls (DeleteCall ks # es) = ks # delete_calls es"
| "delete_calls (e # es) = delete_calls es"

section \<open>The composer (second script block of TableModal.vue)\<close>

record chip =
  icon :: js_string
  label :: js_string
  chip_value :: js_string
  color :: js_string

text \<open>The four chips; the labels are given by their code units.\<close>

definition chips :: "chip list" where
  "chips =
     [\<lparr>icon = js_str ''i-hugeicons:ai-chat-02'', label = [0x667A, 0x80FD, 0x95EE, 0x7B54],
       chip_value = js_str ''COMMON_QA'', color = js_str ''#3b82f6''\<rparr>,
      \<lparr>icon = js_str ''i-hugeicons:database-01'', label = [0x6570, 0x636E, 0x95EE, 0x7B54],
       chip_value = js_str ''DATABASE_QA'', color = js_str ''#10b981''\<rparr>,
      \<lparr>icon = js_str ''i-hugeicons:table-01'', label = [0x8868, 0x683C, 0x95EE, 0x7B54],
       chip_value = js_str ''FILEDATA_QA'', color = js_str ''#f59e0b''\<rparr>,
      \<lparr>icon = js_str ''i-hugeicons:search-02'', label = [0x6DF1, 0x5EA6, 0x641C, 0x7D22],
       chip_value = js_str ''REPORT_QA'', color = js_str ''#8b5cf6''\<rparr>]"

record composer_state =
  inputValue :: js_string
  selectedMode :: "chip option"

text \<open>The payload of \<open>emit('submit', { text, mode })\<close>.\<close>

record submission =
  submit_text :: js_string
  submit_mode :: js_string

text \<open>The fields of the event that the handler and its binding read.\<close>

record keyboard_event =
  key :: js_string
  shiftKey :: bool

text \<open>\<open>selectedMode.value?.value || 'COMMON_QA'\<close>: an empty string is falsy.\<close>

definition mode_or_default :: "chip option \<Rightarrow> js_string" where
  "mode_or_default m =
     (case m of
        None \<Rightarrow> js_str ''COMMON_QA''
      | Some c \<Rightarrow> if chip_value c = [] then js_str ''COMMON_QA'' else chip_value c)"

text \<open>The condition \<open>e && e.shiftKey\<close> on the optional event.\<close>

definition shift_held :: "keyboard_event option \<Rightarrow> bool" where
  "shift_held e = (case e of None \<Rightarrow> False | Some ev \<Rightarrow> shiftKey ev)"

text \<open>
  \<open>handleEnter\<close>: the result is the state left and the submissions emitted.
\<close>

definition handleEnter ::
  "keyboard_event option \<Rightarrow> composer_state \<Rightarrow> composer_state \<times> submission list" where
  "handleEnter e c =
     (if shift_held e then (c, [])
      else if trim (inputValue c) = [] then (c, [])
      else
        (c\<lparr>inputValue := []\<rparr>,
         [\<lparr>submit_text = inputValue c, submit_mode = mode_or_default (selectedMode c)\<rparr>]))"

definition handleChipClick :: "chip \<Rightarrow> composer_state \<Rightarrow> composer_state" where
  "handleChipClick ch c = c\<lparr>selectedMode := Some ch\<rparr>"

definition clearMode :: "composer_state \<Rightarrow> composer_state" where
  "clearMode c = c\<lparr>selectedMode := None\<rparr>"

text \<open>
  The binding \<open>@keydown.enter.prevent="handleEnter"\<close> of the input: on a keydown whose
  key is Enter, the \<open>prevent\<close> modifier calls \<open>preventDefault()\<close> on the event and then
  the handler runs with it; other keys do not reach the handler. The third component is
  the event's \<open>defaultPrevented\<close> afterwards: when it is set, the input does not perform
  the key's default action (for Enter in a textarea, inserting a line break).
\<close>

definition keydown_enter_prevent ::
  "keyboard_event \<Rightarrow> composer_state \<Rightarrow> composer_state \<times> submission list \<times> bool" where
  "keydown_enter_prevent ev c =
     (if key ev = js_str ''Enter'' then
        (case handleEnter (Some ev) c of (c', emitted) \<Rightarrow> (c', emitted, True))
      else (c, [], False))"

section \<open>Example collaborators and responses\<close>

text \<open>A collaborator that settles every query with \<open>q\<close> and every delete with \<open>d\<close>.\<close>

definition api_const :: "response settled \<Rightarrow> response settled \<Rightarrow> global_api" where
  "api_const q d = \<lparr>query_user_qa_record = (\<lambda>p n. q), delete_user_record = (\<lambda>ks. d)\<rparr>"

text \<open>A response with status 200 whose body parses to \<open>body\<close>, and one with status 500.\<close>

definition ok_response :: "jsval \<Rightarrow> response" where
  "ok_response body = \<lparr>ok = True, status = 200, json = Fulfilled body\<rparr>"

definition failed_response :: response where
  "failed_response = \<lparr>ok = False, status = 500, json = Rejected SyntaxError\<rparr>"

text \<open>The body \<open>{ data: { records, total_count, total_pages } }\<close>.\<close>

definition envelope_fields :: "jsval list \<Rightarrow> int \<Rightarrow> int \<Rightarrow> (js_string \<times> jsval) list" where
  "envelope_fields rs tc tp =
     [(js_str ''records'', JArr rs), (js_str ''total_count'', JNum tc),
      (js_str ''total_pages'', JNum tp)]"

definition envelope :: "jsval list \<Rightarrow> int \<Rightarrow> int \<Rightarrow> jsval" where
  "envelope rs tc tp = JObj [(js_str ''data'', JObj (envelope_fields rs tc tp))]"

text \<open>A record with the given \<open>chat_id\<close>.\<close>

definition row :: "int \<Rightarrow> jsval" where
  "row i = JObj [(js_str ''chat_id'', JNum i)]"

text \<open>The dialog on page \<open>p\<close> with page size \<open>n\<close>, rows \<open>rs\<close> shown and keys \<open>ks\<close> checked.\<close>

definition modal_at :: "int \<Rightarrow> int \<Rightarrow> jsval list \<Rightarrow> jsval list \<Rightarrow> modal_state" where
  "modal_at p n rs ks =
     \<lparr>localShow = True, tableData = JArr rs, loading = False, checkedRowKeys = ks,
      pagination = \<lparr>page = p, pageSize = n, total = JNum (int (length rs)), pageCount = JNum 1\<rparr>\<rparr>"

text \<open>A collaborator that answers every query with three records, whatever the page size.\<close>

definition three_rows_api :: global_api where
  "three_rows_api =
     api_const (Fulfilled (ok_response (envelope [row 1, row 2, row 3] 3 2))) (Rejected TypeError)"

text \<open>The rows of \<open>tableData\<close>: the elements of an array.\<close>

fun table_rows :: "jsval \<Rightarrow> jsval list" where
  "table_rows (JArr xs) = xs"
| "table_rows v = []"

section \<open>Theorems\<close>

subsection \<open>Projections and frame lemmas\<close>

lemma outcome_projections:
  "state_of (s, effs, t) = s" "effects_of (s, effs, t) = effs" "thrown_of (s, effs, t) = t"
  by (simp_all add: state_of_def effects_of_def thrown_of_def)

text \<open>
  A body \<open>{ data: { records: [...], total_count: n, total_pages: m } }\<close> (other
  properties may be present) is assigned as it is: an array is truthy even when empty,
  and \<open>0 || 0\<close> is \<open>0\<close>.
\<close>

lemma assign_page_wellformed:
  assumes "map_of fs (js_str ''data'') = Some (JObj env)"
    and "map_of env (js_str ''records'') = Some (JArr rs)"
    and "map_of env (js_str ''total_count'') = Some (JNum tc)"
    and "map_of env (js_str ''total_pages'') = Some (JNum tp)"
  shows "assign_page (JObj fs) s =
           (s\<lparr>tableData := JArr rs,
              pagination := (pagination s)\<lparr>total := JNum tc, pageCount := JNum tp\<rparr>\<rparr>, None)"
  using assms by (simp add: assign_page_def js_or_def)

lemma fetchData_wellformed:
  assumes "query_user_qa_record api (page (pagination s)) (pageSize (pagination s)) = Fulfilled res"
    and "ok res" and "json res = Fulfilled (JObj fs)"
    and "map_of fs (js_str ''data'') = Some (JObj env)"
    and "map_of env (js_str ''records'') = Some (JArr rs)"
    and "map_of env (js_str ''total_count'') = Some (JNum tc)"
    and "map_of env (js_str ''total_pages'') = Some (JNum tp)"
  shows "fetchData api s =
           (s\<lparr>tableData := JArr rs, loading := False,
              pagination := (pagination s)\<lparr>total := JNum tc, pageCount := JNum tp\<rparr>\<rparr>,
            [QueryCall (page (pagination s)) (pageSize (pagination s))], None)"
proof -
  have "assign_page (JObj fs) (s\<lparr>loading := True\<rparr>) =
          (s\<lparr>loading := True, tableData := JArr rs,
             pagination := (pagination s)\<lparr>total := JNum tc, pageCount := JNum tp\<rparr>\<rparr>, None)"
    using assign_page_wellformed [OF assms(4-7), of "s\<lparr>loading := True\<rparr>"] by simp
  then have "handle_response res (s\<lparr>loading := True\<rparr>) =
          (s\<lparr>loading := True, tableData := JArr rs,
             pagination := (pagination s)\<lparr>total := JNum tc, pageCount := JNum tp\<rparr>\<rparr>, [], None)"
    using assms(2-4) by (simp add: handle_response_def data_and_envelope_def)
  then show ?thesis
    using assms(1) by (simp add: fetchData_def fetchData_try_def)
qed

text \<open>What no path through \<open>fetchData\<close> touches, and the calls it makes.\<close>

lemma reset_table_frame [simp]:
  "loading (reset_table s) = loading s"
  "localShow (reset_table s) = localShow s"
  "checkedRowKeys (reset_table s) = checkedRowKeys s"
  "page (pagination (reset_table s)) = page (pagination s)"
  "pageSize (pagination (reset_table s)) = pageSize (pagination s)"
  by (simp_all add: reset_table_def)

lemma assign_page_frame:
  assumes "assign_page data s = (s', t)"
  shows "localShow s' = localShow s \<and> checkedRowKeys s' = checkedRowKeys s
    \<and> page (pagination s') = page (pagination s)
    \<and> pageSize (pagination s') = pageSize (pagination s)"
  using assms by (auto simp: assign_page_def Let_def split: sum.splits)

lemma handle_response_frame:
  assumes "handle_response res s = (s', effs, t)"
  shows "localShow s' = localShow s \<and> checkedRowKeys s' = checkedRowKeys s
    \<and> page (pagination s') = page (pagination s)
    \<and> pageSize (pagination s') = pageSize (pagination s)
    \<and> query_calls effs = [] \<and> delete_calls effs = []"
  using assms
  by (auto simp: handle_response_def split: if_splits settled.splits sum.splits prod.splits
      dest: assign_page_frame)

lemma fetchData_try_frame:
  assumes "fetchData_try api s = (s', effs, t)"
  shows "localShow s' = localShow s \<and> checkedRowKeys s' = checkedRowKeys s
    \<and> page (pagination s') = page (pagination s)
    \<and> pageSize (pagination s') = pageSize (pagination s)
    \<and> query_calls effs = [(page (pagination s), pageSize (pagination s))]
    \<and> delete_calls effs = []"
  using assms
  by (auto simp: fetchData_try_def Let_def split: settled.splits prod.splits
      dest: handle_response_frame)

lemma query_calls_append: "query_calls (xs @ ys) = query_calls xs @ query_calls ys"
  by (induction xs rule: query_calls.induct) simp_all

lemma delete_calls_append: "delete_calls (xs @ ys) = delete_calls xs @ delete_calls ys"
  by (induction xs rule: delete_calls.induct) simp_all

lemma fetchData_frame:
  "localShow (state_of (fetchData api s)) = localShow s"
  "checkedRowKeys (state_of (fetchData api s)) = checkedRowKeys s"
  "page (pagination (state_of (fetchData api s))) = page (pagination s)"
  "pageSize (pagination (state_of (fetchData api s))) = pageSize (pagination s)"
  "query_calls (effects_of (fetchData api s)) = [(page (pagination s), pageSize (pagination s))]"
  "delete_calls (effects_of (fetchData api s)) = []"
  "loading (state_of (fetchData api s)) = False"
  "thrown_of (fetchData api s) = None"
proof -
  obtain s1 effs t where tr: "fetchData_try api (s\<lparr>loading := True\<rparr>) = (s1, effs, t)"
    by (cases "fetchData_try api (s\<lparr>loading := True\<rparr>)") auto
  note fr = fetchData_try_frame [OF tr]
  show "localShow (state_of (fetchData api s)) = localShow s"
    using fr tr by (cases t) (simp_all add: fetchData_def fetchData_catch_def outcome_projections)
  show "checkedRowKeys (state_of (fetchData api s)) = checkedRowKeys s"
    using fr tr by (cases t) (simp_all add: fetchData_def fetchData_catch_def outcome_projections)
  show "page (pagination (state_of (fetchData api s))) = page (pagination s)"
    using fr tr by (cases t) (simp_all add: fetchData_def fetchData_catch_def outcome_projections)
  show "pageSize (pagination (state_of (fetchData api s))) = pageSize (pagination s)"
    using fr tr by (cases t) (simp_all add: fetchData_def fetchData_catch_def outcome_projections)
  show "query_calls (effects_of (fetchData api s)) = [(page (pagination s), pageSize (pagination s))]"
    using fr tr
    by (cases t) (simp_all add: fetchData_def fetchData_catch_def outcome_projections query_calls_append)
  show "delete_calls (effects_of (fetchData api s)) = []"
    using fr tr
    by (cases t) (simp_all add: fetchData_def fetchData_catch_def outcome_projections delete_calls_append)
  show "loading (state_of (fetchData api s)) = False"
    using tr by (cases t) (simp_all add: fetchData_def fetchData_catch_def outcome_projections)
  show "thrown_of (fetchData api s) = None"
    using tr by (cases t) (simp_all add: fetchData_def fetchData_catch_def outcome_projections)
qed


text \<open>Evaluation of the example collaborators.\<close>

lemma envelope_lookup:
  "map_of (envelope_fields rs tc tp) (js_str ''records'') = Some (JArr rs)"
  "map_of (envelope_fields rs tc tp) (js_str ''total_count'') = Some (JNum tc)"
  "map_of (envelope_fields rs tc tp) (js_str ''total_pages'') = Some (JNum tp)"
  by (simp_all add: envelope_fields_def js_str_def)

lemma api_const_simps:
  "query_user_qa_record (api_const q d) p n = q"
  "delete_user_record (api_const q d) ks = d"
  by (simp_all add: api_const_def)

lemma modal_at_simps:
  "page (pagination (modal_at p n rs ks)) = p"
  "pageSize (pagination (modal_at p n rs ks)) = n"
  "tableData (modal_at p n rs ks) = JArr rs"
  "checkedRowKeys (modal_at p n rs ks) = ks"
  by (simp_all add: modal_at_def)

subsection \<open>fetchData on a well-formed response\<close>

text \<open>
  C1: when the query is fulfilled with a response whose \<open>ok\<close> is true and whose body
  parses to an object with a \<open>data\<close> object holding an array \<open>records\<close> and numbers
  \<open>total_count\<close> and \<open>total_pages\<close>, \<open>fetchData\<close> leaves \<open>tableData\<close>,
  \<open>pagination.total\<close> and \<open>pagination.pageCount\<close> equal to these three fields, and
  \<open>loading\<close> false.
\<close>

theorem fetchData_success_assigns:
  assumes "query_user_qa_record api (page (pagination s)) (pageSize (pagination s)) = Fulfilled res"
    and "ok res" and "json res = Fulfilled (JObj fs)"
    and "map_of fs (js_str ''data'') = Some (JObj env)"
    and "map_of env (js_str ''records'') = Some (JArr rs)"
    and "map_of env (js_str ''total_count'') = Some (JNum tc)"
    and "map_of env (js_str ''total_pages'') = Some (JNum tp)"
  shows "tableData (state_of (fetchData api s)) = JArr rs
    \<and> total (pagination (state_of (fetchData api s))) = JNum tc
    \<and> pageCount (pagination (state_of (fetchData api s))) = JNum tp
    \<and> loading (state_of (fetchData api s)) = False"
  using fetchData_wellformed [OF assms] by (simp add: outcome_projections)

text \<open>
  Scenario B of the specification: page 1, page size 8, and the response
  \<open>{ data: { records: [], total_count: 0, total_pages: 0 } }\<close>, on a dialog that showed
  one row before.
\<close>

theorem fetchData_success_assigns_witness:
  "tableData (state_of (fetchData
       (api_const (Fulfilled (ok_response (envelope [] 0 0))) (Rejected TypeError))
       (modal_at 1 8 [row 7] []))) = JArr []
   \<and> total (pagination (state_of (fetchData
       (api_const (Fulfilled (ok_response (envelope [] 0 0))) (Rejected TypeError))
       (modal_at 1 8 [row 7] [])))) = JNum 0
   \<and> pageCount (pagination (state_of (fetchData
       (api_const (Fulfilled (ok_response (envelope [] 0 0))) (Rejected TypeError))
       (modal_at 1 8 [row 7] [])))) = JNum 0
   \<and> loading (state_of (fetchData
       (api_const (Fulfilled (ok_response (envelope [] 0 0))) (Rejected TypeError))
       (modal_at 1 8 [row 7] []))) = False"
proof -
  let ?res = "ok_response (envelope [] 0 0)"
  let ?api = "api_const (Fulfilled ?res) (Rejected TypeError)"
  let ?s = "modal_at 1 8 [row 7] []"
  have q: "query_user_qa_record ?api (page (pagination ?s)) (pageSize (pagination ?s)) = Fulfilled ?res"
    by (simp add: api_const_simps)
  have o: "ok ?res"
    by (simp add: ok_response_def)
  have j: "json ?res = Fulfilled (JObj [(js_str ''data'', JObj (envelope_fields [] 0 0))])"
    by (simp add: ok_response_def envelope_def)
  have d: "map_of [(js_str ''data'', JObj (envelope_fields [] 0 0))] (js_str ''data'')
      = Some (JObj (envelope_fields [] 0 0))"
    by simp
  show ?thesis
    by (rule fetchData_success_assigns [OF q o j d envelope_lookup])
qed


subsection \<open>fetchData on a failure\<close>

text \<open>A rejected query goes through the \<open>catch\<close> block.\<close>

lemma fetchData_rejected:
  assumes "query_user_qa_record api (page (pagination s)) (pageSize (pagination s)) = Rejected e"
  shows "state_of (fetchData api s) = (reset_table s)\<lparr>loading := False\<rparr>"
  using assms
  by (simp add: fetchData_def fetchData_try_def fetchData_catch_def outcome_projections
      reset_table_def)

text \<open>
  A response that is not \<open>ok\<close>, whose body does not parse, or whose body is falsy or has
  no truthy \<open>data\<close> member either throws before any assignment or resets the table.
\<close>

lemma handle_response_failed:
  assumes "\<not> ok res \<or> (\<exists>e. json res = Rejected e)
      \<or> (\<exists>d. json res = Fulfilled d
            \<and> (\<not> truthy d \<or> (\<exists>v. get_prop d (js_str ''data'') = Inr v \<and> \<not> truthy v)))"
  shows "\<exists>effs t. handle_response res s = (s, effs, Some t)
      \<or> handle_response res s = (reset_table s, effs, None)"
  using assms
  by (auto simp: handle_response_def data_and_envelope_def split: settled.splits sum.splits)

lemma fetchData_response_failed:
  assumes "query_user_qa_record api (page (pagination s)) (pageSize (pagination s)) = Fulfilled res"
    and "\<not> ok res \<or> (\<exists>e. json res = Rejected e)
      \<or> (\<exists>d. json res = Fulfilled d
            \<and> (\<not> truthy d \<or> (\<exists>v. get_prop d (js_str ''data'') = Inr v \<and> \<not> truthy v)))"
  shows "state_of (fetchData api s) = (reset_table s)\<lparr>loading := False\<rparr>"
proof -
  obtain effs t where
    "handle_response res (s\<lparr>loading := True\<rparr>) = (s\<lparr>loading := True\<rparr>, effs, Some t)
      \<or> handle_response res (s\<lparr>loading := True\<rparr>) = (reset_table (s\<lparr>loading := True\<rparr>), effs, None)"
    using handle_response_failed [OF assms(2)] by blast
  then show ?thesis
    using assms(1)
    by (auto simp: fetchData_def fetchData_try_def fetchData_catch_def outcome_projections
        reset_table_def)
qed

text \<open>
  C2: when the query is rejected, or the response is not \<open>ok\<close>, or \<open>res.json()\<close>
  rejects, or the parsed body is falsy or its \<open>data\<close> member is absent or falsy (in
  particular a body with no \<open>data\<close> envelope), \<open>fetchData\<close> leaves \<open>tableData\<close> the
  empty array and \<open>total\<close> and \<open>pageCount\<close> zero, throws nothing to its caller, and
  leaves \<open>loading\<close> false; \<open>loading\<close> is false after every run of \<open>fetchData\<close>,
  whatever the collaborator and the state.
\<close>

theorem fetchData_failure_resets:
  assumes "(\<exists>e. query_user_qa_record api (page (pagination s)) (pageSize (pagination s)) = Rejected e)
    \<or> (\<exists>res. query_user_qa_record api (page (pagination s)) (pageSize (pagination s)) = Fulfilled res
          \<and> (\<not> ok res \<or> (\<exists>e. json res = Rejected e)
              \<or> (\<exists>d. json res = Fulfilled d
                    \<and> (\<not> truthy d
                        \<or> (\<exists>v. get_prop d (js_str ''data'') = Inr v \<and> \<not> truthy v)))))"
  shows "state_of (fetchData api s) =
           s\<lparr>tableData := JArr [], loading := False,
             pagination := (pagination s)\<lparr>total := JNum 0, pageCount := JNum 0\<rparr>\<rparr>
    \<and> thrown_of (fetchData api s) = None
    \<and> loading (state_of (fetchData api' s')) = False"
proof -
  have "state_of (fetchData api s) = (reset_table s)\<lparr>loading := False\<rparr>"
    using assms fetchData_rejected fetchData_response_failed by blast
  then show ?thesis
    by (simp add: reset_table_def fetchData_frame)
qed

text \<open>
  Scenario C of the specification: the response \<open>{ ok: false }\<close>, on page 2 of a dialog
  that showed one row, checked.
\<close>

theorem fetchData_failure_resets_witness:
  "state_of (fetchData (api_const (Fulfilled failed_response) (Rejected TypeError))
       (modal_at 2 8 [row 7] [JNum 7])) =
     (modal_at 2 8 [row 7] [JNum 7])
       \<lparr>tableData := JArr [], loading := False,
        pagination := (pagination (modal_at 2 8 [row 7] [JNum 7]))
          \<lparr>total := JNum 0, pageCount := JNum 0\<rparr>\<rparr>
   \<and> thrown_of (fetchData (api_const (Fulfilled failed_response) (Rejected TypeError))
       (modal_at 2 8 [row 7] [JNum 7])) = None
   \<and> loading (state_of (fetchData (api_const (Rejected SyntaxError) (Rejected TypeError))
       (modal_at 1 8 [] []))) = False"
proof -
  let ?api = "api_const (Fulfilled failed_response) (Rejected TypeError)"
  let ?s = "modal_at 2 8 [row 7] [JNum 7]"
  have q: "query_user_qa_record ?api (page (pagination ?s)) (pageSize (pagination ?s))
      = Fulfilled failed_response"
    by (simp add: api_const_simps)
  have o: "\<not> ok failed_response"
    by (simp add: failed_response_def)
  have h: "(\<exists>e. query_user_qa_record ?api (page (pagination ?s)) (pageSize (pagination ?s)) = Rejected e)
    \<or> (\<exists>res. query_user_qa_record ?api (page (pagination ?s)) (pageSize (pagination ?s)) = Fulfilled res
          \<and> (\<not> ok res \<or> (\<exists>e. json res = Rejected e)
              \<or> (\<exists>d. json res = Fulfilled d
                    \<and> (\<not> truthy d
                        \<or> (\<exists>v. get_prop d (js_str ''data'') = Inr v \<and> \<not> truthy v)))))"
    using q o by blast
  show ?thesis
    by (rule fetchData_failure_resets [OF h])
qed

text \<open>
  The other failures on the same dialog: the query rejected, a body that does not parse,
  the body \<open>null\<close>, and the body \<open>{}\<close>, which has no \<open>data\<close> envelope.
\<close>

lemma fetchData_failure_examples:
  "tableData (state_of (fetchData (api_const (Rejected (Thrown JNull)) (Rejected TypeError))
       (modal_at 2 8 [row 7] [JNum 7]))) = JArr []"
  "tableData (state_of (fetchData
       (api_const (Fulfilled \<lparr>ok = True, status = 200, json = Rejected SyntaxError\<rparr>)
          (Rejected TypeError))
       (modal_at 2 8 [row 7] [JNum 7]))) = JArr []"
  "tableData (state_of (fetchData (api_const (Fulfilled (ok_response JNull)) (Rejected TypeError))
       (modal_at 2 8 [row 7] [JNum 7]))) = JArr []"
  "tableData (state_of (fetchData (api_const (Fulfilled (ok_response (JObj []))) (Rejected TypeError))
       (modal_at 2 8 [row 7] [JNum 7]))) = JArr []"
  by (simp_all add: fetchData_rejected fetchData_response_failed api_const_simps ok_response_def
      reset_table_def)

subsection \<open>Page size, deletion, closing\<close>

text \<open>
  C4: \<open>handlePageSizeChange newPageSize\<close>, whatever the current page, issues exactly
  one query, with page 1 and the new page size, and leaves the page cursor at 1 and the
  page size at the new value.
\<close>

theorem handlePageSizeChange_fetches_first_page:
  "query_calls (effects_of (handlePageSizeChange newPageSize api s)) = [(1, newPageSize)]
   \<and> page (pagination (state_of (handlePageSizeChange newPageSize api s))) = 1
   \<and> pageSize (pagination (state_of (handlePageSizeChange newPageSize api s))) = newPageSize"
  by (simp add: handlePageSizeChange_def fetchData_frame)

text \<open>Scenario D of the specification: page size 20 chosen while on page 3.\<close>

theorem handlePageSizeChange_fetches_first_page_witness:
  "query_calls (effects_of (handlePageSizeChange 20
       (api_const (Fulfilled (ok_response (envelope [row 1] 1 1))) (Rejected TypeError))
       (modal_at 3 8 [] []))) = [(1, 20)]
   \<and> page (pagination (state_of (handlePageSizeChange 20
       (api_const (Fulfilled (ok_response (envelope [row 1] 1 1))) (Rejected TypeError))
       (modal_at 3 8 [] [])))) = 1
   \<and> pageSize (pagination (state_of (handlePageSizeChange 20
       (api_const (Fulfilled (ok_response (envelope [row 1] 1 1))) (Rejected TypeError))
       (modal_at 3 8 [] [])))) = 20
   \<and> page (pagination (modal_at 3 8 [] [])) = 3"
  using handlePageSizeChange_fetches_first_page
    [of 20 "api_const (Fulfilled (ok_response (envelope [row 1] 1 1))) (Rejected TypeError)"
      "modal_at 3 8 [] []"]
  by (simp add: modal_at_simps)

text \<open>
  C5: with no key checked, \<open>deleteSelectedData\<close> makes no call and returns the state as
  it was. With a key checked it makes exactly one delete call, carrying the checked keys;
  when that call is fulfilled with an \<open>ok\<close> response it makes one query, at the current
  page and page size, and leaves the page cursor where it was; when the call is rejected
  or the response is not \<open>ok\<close> it makes no query and leaves the state as it was.
\<close>

theorem deleteSelectedData_cases:
  "(checkedRowKeys s = [] \<longrightarrow> deleteSelectedData api s = (s, [], None))
   \<and> (checkedRowKeys s \<noteq> [] \<longrightarrow>
        delete_calls (effects_of (deleteSelectedData api s)) = [checkedRowKeys s])
   \<and> (checkedRowKeys s \<noteq> [] \<and> delete_user_record api (checkedRowKeys s) = Fulfilled res \<and> ok res \<longrightarrow>
        query_calls (effects_of (deleteSelectedData api s))
          = [(page (pagination s), pageSize (pagination s))]
        \<and> state_of (deleteSelectedData api s) = state_of (fetchData api s)
        \<and> page (pagination (state_of (deleteSelectedData api s))) = page (pagination s))
   \<and> (checkedRowKeys s \<noteq> []
        \<and> (delete_user_record api (checkedRowKeys s) = Rejected e
            \<or> delete_user_record api (checkedRowKeys s) = Fulfilled res \<and> \<not> ok res) \<longrightarrow>
        query_calls (effects_of (deleteSelectedData api s)) = []
        \<and> state_of (deleteSelectedData api s) = s)"
proof (intro conjI impI)
  assume "checkedRowKeys s = []"
  then show "deleteSelectedData api s = (s, [], None)"
    by (simp add: deleteSelectedData_def)
next
  assume ne: "checkedRowKeys s \<noteq> []"
  obtain s' effs t where f: "fetchData api s = (s', effs, t)"
    by (cases "fetchData api s") auto
  have "delete_calls effs = []"
    using fetchData_frame(6) [of api s] f by (simp add: outcome_projections)
  then show "delete_calls (effects_of (deleteSelectedData api s)) = [checkedRowKeys s]"
    using ne f
    by (simp add: deleteSelectedData_def outcome_projections split: settled.splits)
next
  assume a: "checkedRowKeys s \<noteq> [] \<and> delete_user_record api (checkedRowKeys s) = Fulfilled res \<and> ok res"
  obtain s' effs t where f: "fetchData api s = (s', effs, t)"
    by (cases "fetchData api s") auto
  have fr: "query_calls effs = [(page (pagination s), pageSize (pagination s))]"
    "page (pagination s') = page (pagination s)"
    using fetchData_frame(5) [of api s] fetchData_frame(3) [of api s] f
    by (simp_all add: outcome_projections)
  show "query_calls (effects_of (deleteSelectedData api s))
      = [(page (pagination s), pageSize (pagination s))]"
    using a f fr by (simp add: deleteSelectedData_def outcome_projections)
  show "state_of (deleteSelectedData api s) = state_of (fetchData api s)"
    using a f by (simp add: deleteSelectedData_def outcome_projections)
  show "page (pagination (state_of (deleteSelectedData api s))) = page (pagination s)"
    using a f fr by (simp add: deleteSelectedData_def outcome_projections)
next
  assume a: "checkedRowKeys s \<noteq> []
    \<and> (delete_user_record api (checkedRowKeys s) = Rejected e
        \<or> delete_user_record api (checkedRowKeys s) = Fulfilled res \<and> \<not> ok res)"
  show "query_calls (effects_of (deleteSelectedData api s)) = []"
    using a by (auto simp: deleteSelectedData_def outcome_projections)
  show "state_of (deleteSelectedData api s) = s"
    using a by (auto simp: deleteSelectedData_def outcome_projections)
qed

text \<open>
  One run for each case: nothing checked; key 5 checked on page 2 and the delete
  succeeding; the delete answered with status 500; the delete rejected.
\<close>

theorem deleteSelectedData_cases_witness:
  "deleteSelectedData (api_const (Rejected TypeError) (Rejected TypeError))
       (modal_at 2 8 [row 1] []) = (modal_at 2 8 [row 1] [], [], None)
   \<and> delete_calls (effects_of (deleteSelectedData
         (api_const (Fulfilled (ok_response (envelope [] 0 0))) (Fulfilled (ok_response JNull)))
         (modal_at 2 8 [row 5] [JNum 5]))) = [[JNum 5]]
   \<and> query_calls (effects_of (deleteSelectedData
         (api_const (Fulfilled (ok_response (envelope [] 0 0))) (Fulfilled (ok_response JNull)))
         (modal_at 2 8 [row 5] [JNum 5]))) = [(2, 8)]
   \<and> page (pagination (state_of (deleteSelectedData
         (api_const (Fulfilled (ok_response (envelope [] 0 0))) (Fulfilled (ok_response JNull)))
         (modal_at 2 8 [row 5] [JNum 5])))) = 2
   \<and> query_calls (effects_of (deleteSelectedData
         (api_const (Fulfilled (ok_response (envelope [] 0 0))) (Fulfilled failed_response))
         (modal_at 2 8 [row 5] [JNum 5]))) = []
   \<and> state_of (deleteSelectedData
         (api_const (Fulfilled (ok_response (envelope [] 0 0))) (Fulfilled failed_response))
         (modal_at 2 8 [row 5] [JNum 5])) = modal_at 2 8 [row 5] [JNum 5]
   \<and> state_of (deleteSelectedData
         (api_const (Fulfilled (ok_response (envelope [] 0 0))) (Rejected (Thrown JNull)))
         (modal_at 2 8 [row 5] [JNum 5])) = modal_at 2 8 [row 5] [JNum 5]"
proof -
  let ?q = "Fulfilled (ok_response (envelope [] 0 0))"
  let ?s = "modal_at 2 8 [row 5] [JNum 5]"
  have none: "checkedRowKeys (modal_at 2 8 [row 1] []) = []"
    and some: "checkedRowKeys ?s \<noteq> []"
    by (simp_all add: modal_at_simps)
  have okd: "delete_user_record (api_const ?q (Fulfilled (ok_response JNull))) (checkedRowKeys ?s)
        = Fulfilled (ok_response JNull) \<and> ok (ok_response JNull)"
    by (simp add: api_const_simps ok_response_def)
  have bad: "delete_user_record (api_const ?q (Fulfilled failed_response)) (checkedRowKeys ?s)
        = Fulfilled failed_response \<and> \<not> ok failed_response"
    by (simp add: api_const_simps failed_response_def)
  have rej: "delete_user_record (api_const ?q (Rejected (Thrown JNull))) (checkedRowKeys ?s)
        = Rejected (Thrown JNull)"
    by (simp add: api_const_simps)
  have 1: "deleteSelectedData (api_const (Rejected TypeError) (Rejected TypeError)) (modal_at 2 8 [row 1] [])
      = (modal_at 2 8 [row 1] [], [], None)"
    using deleteSelectedData_cases
      [where s = "modal_at 2 8 [row 1] []" and api = "api_const (Rejected TypeError) (Rejected TypeError)" and res = failed_response
        and e = TypeError] none
    by blast
  have 2: "delete_calls (effects_of (deleteSelectedData
         (api_const ?q (Fulfilled (ok_response JNull))) ?s)) = [checkedRowKeys ?s]
     \<and> query_calls (effects_of (deleteSelectedData
         (api_const ?q (Fulfilled (ok_response JNull))) ?s))
         = [(page (pagination ?s), pageSize (pagination ?s))]
     \<and> page (pagination (state_of (deleteSelectedData
         (api_const ?q (Fulfilled (ok_response JNull))) ?s))) = page (pagination ?s)"
    using deleteSelectedData_cases
      [where s = ?s and api = "api_const ?q (Fulfilled (ok_response JNull))"
        and res = "ok_response JNull" and e = TypeError] some okd
    by blast
  have 3: "query_calls (effects_of (deleteSelectedData
         (api_const ?q (Fulfilled failed_response)) ?s)) = []
     \<and> state_of (deleteSelectedData (api_const ?q (Fulfilled failed_response)) ?s) = ?s"
    using deleteSelectedData_cases
      [where s = ?s and api = "api_const ?q (Fulfilled failed_response)"
        and res = failed_response and e = TypeError] some bad
    by blast
  have 4: "state_of (deleteSelectedData (api_const ?q (Rejected (Thrown JNull))) ?s) = ?s"
    using deleteSelectedData_cases
      [where s = ?s and api = "api_const ?q (Rejected (Thrown JNull))"
        and res = failed_response and e = "Thrown JNull"] some rej
    by blast
  show ?thesis
    using 1 2 3 4 by (simp add: modal_at_simps)
qed

text \<open>
  C9: \<open>close\<close> leaves \<open>localShow\<close> false and the page cursor at 1, and leaves
  \<open>tableData\<close> and \<open>checkedRowKeys\<close> as they were.
\<close>

theorem close_resets_page_only:
  "localShow (state_of (close s)) = False
   \<and> page (pagination (state_of (close s))) = 1
   \<and> tableData (state_of (close s)) = tableData s
   \<and> checkedRowKeys (state_of (close s)) = checkedRowKeys s"
  by (simp add: close_def outcome_projections)

text \<open>Closing on page 3 with two rows shown and one key checked.\<close>

theorem close_resets_page_only_witness:
  "localShow (state_of (close (modal_at 3 8 [row 1, row 2] [JNum 2]))) = False
   \<and> page (pagination (state_of (close (modal_at 3 8 [row 1, row 2] [JNum 2])))) = 1
   \<and> tableData (state_of (close (modal_at 3 8 [row 1, row 2] [JNum 2]))) = JArr [row 1, row 2]
   \<and> checkedRowKeys (state_of (close (modal_at 3 8 [row 1, row 2] [JNum 2]))) = [JNum 2]"
  using close_resets_page_only [of "modal_at 3 8 [row 1, row 2] [JNum 2]"]
  by (simp add: modal_at_simps)


subsection \<open>The number of rows after a fetch\<close>

text \<open>
  The component assigns the records it is given; it reads \<open>pageSize\<close> only to pass it
  to the query. A collaborator that returns three records for page size 2:
\<close>

lemma three_rows_fetch:
  "fetchData three_rows_api (modal_at 1 2 [] []) =
     ((modal_at 1 2 [] [])
        \<lparr>tableData := JArr [row 1, row 2, row 3], loading := False,
         pagination := (pagination (modal_at 1 2 [] []))\<lparr>total := JNum 3, pageCount := JNum 2\<rparr>\<rparr>,
      [QueryCall 1 2], None)"
proof -
  let ?res = "ok_response (envelope [row 1, row 2, row 3] 3 2)"
  let ?s = "modal_at 1 2 [] []"
  have q: "query_user_qa_record three_rows_api (page (pagination ?s)) (pageSize (pagination ?s))
      = Fulfilled ?res"
    by (simp add: three_rows_api_def api_const_simps)
  have o: "ok ?res"
    by (simp add: ok_response_def)
  have j: "json ?res
      = Fulfilled (JObj [(js_str ''data'', JObj (envelope_fields [row 1, row 2, row 3] 3 2))])"
    by (simp add: ok_response_def envelope_def)
  have d: "map_of [(js_str ''data'', JObj (envelope_fields [row 1, row 2, row 3] 3 2))] (js_str ''data'')
      = Some (JObj (envelope_fields [row 1, row 2, row 3] 3 2))"
    by simp
  show ?thesis
    using fetchData_wellformed [OF q o j d envelope_lookup] by (simp add: modal_at_simps)
qed

text \<open>
  C7 as stated fails: page 1 and page size 2 are valid, the fetch succeeds, and
  \<open>tableData\<close> holds three rows.
\<close>

theorem fetchData_rows_exceed_pageSize:
  "1 \<le> page (pagination (modal_at 1 2 [] []))
   \<and> 0 < pageSize (pagination (modal_at 1 2 [] []))
   \<and> thrown_of (fetchData three_rows_api (modal_at 1 2 [] [])) = None
   \<and> tableData (state_of (fetchData three_rows_api (modal_at 1 2 [] [])))
       = JArr [row 1, row 2, row 3]
   \<and> \<not> int (length (table_rows (tableData (state_of (fetchData three_rows_api (modal_at 1 2 [] []))))))
         \<le> pageSize (pagination (modal_at 1 2 [] []))"
  by (simp add: three_rows_fetch outcome_projections modal_at_simps)

text \<open>
  C7, amended: after every fetch that succeeds with a well-formed response, whatever the
  number of records in it, \<open>tableData\<close> is exactly the records array of the response
  (the component does not truncate); so the number of rows is at most \<open>pageSize\<close>
  exactly when the collaborator returned at most \<open>pageSize\<close> records.
\<close>

theorem fetchData_rows_are_response_records:
  assumes "query_user_qa_record api (page (pagination s)) (pageSize (pagination s)) = Fulfilled res"
    and "ok res" and "json res = Fulfilled (JObj fs)"
    and "map_of fs (js_str ''data'') = Some (JObj env)"
    and "map_of env (js_str ''records'') = Some (JArr rs)"
    and "map_of env (js_str ''total_count'') = Some (JNum tc)"
    and "map_of env (js_str ''total_pages'') = Some (JNum tp)"
  shows "tableData (state_of (fetchData api s)) = JArr rs
    \<and> table_rows (tableData (state_of (fetchData api s))) = rs
    \<and> (int (length (table_rows (tableData (state_of (fetchData api s))))) \<le> pageSize (pagination s))
        = (int (length rs) \<le> pageSize (pagination s))"
  using fetchData_wellformed [OF assms] by (simp add: outcome_projections)

text \<open>
  Two records for page size 2: the rows are these two records, and the bound holds
  because the response kept it.
\<close>

theorem fetchData_rows_are_response_records_witness:
  "tableData (state_of (fetchData
       (api_const (Fulfilled (ok_response (envelope [row 1, row 2] 5 3))) (Rejected TypeError))
       (modal_at 1 2 [] []))) = JArr [row 1, row 2]
   \<and> table_rows (tableData (state_of (fetchData
       (api_const (Fulfilled (ok_response (envelope [row 1, row 2] 5 3))) (Rejected TypeError))
       (modal_at 1 2 [] [])))) = [row 1, row 2]
   \<and> int (length (table_rows (tableData (state_of (fetchData
       (api_const (Fulfilled (ok_response (envelope [row 1, row 2] 5 3))) (Rejected TypeError))
       (modal_at 1 2 [] []))))))
     \<le> pageSize (pagination (modal_at 1 2 [] []))"
proof -
  let ?res = "ok_response (envelope [row 1, row 2] 5 3)"
  let ?api = "api_const (Fulfilled ?res) (Rejected TypeError)"
  let ?s = "modal_at 1 2 [] []"
  have q: "query_user_qa_record ?api (page (pagination ?s)) (pageSize (pagination ?s)) = Fulfilled ?res"
    by (simp add: api_const_simps)
  have o: "ok ?res"
    by (simp add: ok_response_def)
  have j: "json ?res = Fulfilled (JObj [(js_str ''data'', JObj (envelope_fields [row 1, row 2] 5 3))])"
    by (simp add: ok_response_def envelope_def)
  have d: "map_of [(js_str ''data'', JObj (envelope_fields [row 1, row 2] 5 3))] (js_str ''data'')
      = Some (JObj (envelope_fields [row 1, row 2] 5 3))"
    by simp
  have n: "int (length [row 1, row 2]) \<le> pageSize (pagination ?s)"
    by (simp add: modal_at_simps)
  have inst: "tableData (state_of (fetchData ?api ?s)) = JArr [row 1, row 2]
    \<and> table_rows (tableData (state_of (fetchData ?api ?s))) = [row 1, row 2]
    \<and> (int (length (table_rows (tableData (state_of (fetchData ?api ?s))))) \<le> pageSize (pagination ?s))
        = (int (length [row 1, row 2]) \<le> pageSize (pagination ?s))"
    by (rule fetchData_rows_are_response_records [OF q o j d envelope_lookup])
  show ?thesis
    using inst n by blast
qed

subsection \<open>The composer\<close>

text \<open>
  Without the shift modifier and with text that does not trim to nothing, one
  submission is emitted and the input is cleared.
\<close>

lemma handleEnter_emits:
  assumes "\<not> shift_held e" and "trim (inputValue c) \<noteq> []"
  shows "handleEnter e c =
           (c\<lparr>inputValue := []\<rparr>,
            [\<lparr>submit_text = inputValue c, submit_mode = mode_or_default (selectedMode c)\<rparr>])"
  using assms by (simp add: handleEnter_def)

lemma trim_hi: "trim (js_str ''  hi '') = js_str ''hi''"
  by (simp add: trim_def js_whitespace_def js_str_def)

text \<open>
  C3 as stated fails on the tag: with the text \<open>hi\<close> and no mode selected, the emitted
  mode is the string \<open>COMMON_QA\<close>, the value of the first chip, and not \<open>GENERAL_QA\<close>.
\<close>

theorem handleEnter_default_mode_not_GENERAL_QA:
  "snd (handleEnter None \<lparr>inputValue = js_str ''hi'', selectedMode = None\<rparr>)
     = [\<lparr>submit_text = js_str ''hi'', submit_mode = js_str ''COMMON_QA''\<rparr>]
   \<and> submit_mode (hd (snd (handleEnter None \<lparr>inputValue = js_str ''hi'', selectedMode = None\<rparr>)))
     \<noteq> js_str ''GENERAL_QA''"
  by (simp add: handleEnter_def shift_held_def mode_or_default_def trim_def js_whitespace_def
      js_str_def)

text \<open>
  C3, amended: \<open>handleEnter\<close> without the shift modifier, with text whose trimmed form
  is not empty and no mode selected, emits exactly one submission, with the stored text
  and the mode \<open>COMMON_QA\<close>; afterwards the text is the empty string and the mode is
  still unset.
\<close>

theorem handleEnter_default_mode:
  assumes "\<not> shift_held e" and "trim (inputValue c) \<noteq> []" and "selectedMode c = None"
  shows "snd (handleEnter e c)
           = [\<lparr>submit_text = inputValue c, submit_mode = js_str ''COMMON_QA''\<rparr>]
    \<and> inputValue (fst (handleEnter e c)) = []
    \<and> selectedMode (fst (handleEnter e c)) = None"
  using handleEnter_emits [OF assms(1,2)] assms(3) by (simp add: mode_or_default_def)

text \<open>The send button (no event) with the text \<open>hi\<close> between blanks.\<close>

theorem handleEnter_default_mode_witness:
  "snd (handleEnter None \<lparr>inputValue = js_str ''  hi '', selectedMode = None\<rparr>)
     = [\<lparr>submit_text = inputValue \<lparr>inputValue = js_str ''  hi '', selectedMode = None\<rparr>,
         submit_mode = js_str ''COMMON_QA''\<rparr>]
   \<and> inputValue (fst (handleEnter None \<lparr>inputValue = js_str ''  hi '', selectedMode = None\<rparr>)) = []
   \<and> selectedMode (fst (handleEnter None \<lparr>inputValue = js_str ''  hi '', selectedMode = None\<rparr>))
     = None"
proof -
  let ?c = "\<lparr>inputValue = js_str ''  hi '', selectedMode = None\<rparr>"
  have a: "\<not> shift_held None"
    by (simp add: shift_held_def)
  have b: "trim (inputValue ?c) \<noteq> []"
    by (simp add: trim_hi) (simp add: js_str_def)
  have c: "selectedMode ?c = None"
    by simp
  show ?thesis
    by (rule handleEnter_default_mode [OF a b c])
qed

text \<open>
  C6: when the stored text trims to the empty string, \<open>handleEnter\<close> emits nothing and
  returns the state as it was, text and mode included, with or without an event.
\<close>

theorem handleEnter_blank_is_noop:
  assumes "trim (inputValue c) = []"
  shows "handleEnter e c = (c, [])"
  using assms by (simp add: handleEnter_def)

text \<open>
  Enter on a space, an ideographic space and a line feed, with the second chip selected.
\<close>

theorem handleEnter_blank_is_noop_witness:
  "handleEnter (Some \<lparr>key = js_str ''Enter'', shiftKey = False\<rparr>)
     \<lparr>inputValue = [0x0020, 0x3000, 0x000A], selectedMode = Some (chips ! 1)\<rparr>
   = (\<lparr>inputValue = [0x0020, 0x3000, 0x000A], selectedMode = Some (chips ! 1)\<rparr>, [])"
proof -
  have "trim (inputValue \<lparr>inputValue = [0x0020, 0x3000, 0x000A], selectedMode = Some (chips ! 1)\<rparr>) = []"
    by (simp add: trim_def js_whitespace_def)
  then show ?thesis
    by (rule handleEnter_blank_is_noop)
qed

text \<open>
  C8: on an Enter keydown with the shift modifier, the binding emits no submission and
  leaves the text as it was, and it has called \<open>preventDefault()\<close> on the event: the
  line break that the key would insert by default is suppressed, so the key is not a
  literal newline insertion.
\<close>

theorem keydown_shift_enter_prevents_default:
  assumes "key ev = js_str ''Enter''" and "shiftKey ev"
  shows "keydown_enter_prevent ev c = (c, [], True)"
  using assms by (simp add: keydown_enter_prevent_def handleEnter_def shift_held_def)

text \<open>Shift and Enter on the text \<open>a\<close>: the text stays \<open>a\<close>.\<close>

theorem keydown_shift_enter_prevents_default_witness:
  "keydown_enter_prevent \<lparr>key = js_str ''Enter'', shiftKey = True\<rparr>
     \<lparr>inputValue = js_str ''a'', selectedMode = None\<rparr>
   = (\<lparr>inputValue = js_str ''a'', selectedMode = None\<rparr>, [], True)"
proof -
  have a: "key \<lparr>key = js_str ''Enter'', shiftKey = True\<rparr> = js_str ''Enter''"
    by simp
  have b: "shiftKey \<lparr>key = js_str ''Enter'', shiftKey = True\<rparr>"
    by simp
  show ?thesis
    by (rule keydown_shift_enter_prevents_default [OF a b])
qed

text \<open>
  C10: when \<open>handleEnter\<close> emits (no shift modifier, text that does not trim to
  nothing), the text of the one submission emitted is the stored input value itself,
  untrimmed.
\<close>

theorem handleEnter_text_verbatim:
  assumes "\<not> shift_held e" and "trim (inputValue c) \<noteq> []"
  shows "map submit_text (snd (handleEnter e c)) = [inputValue c]"
  using handleEnter_emits [OF assms] by simp

text \<open>The text \<open>hi\<close> between blanks is emitted with its blanks.\<close>

theorem handleEnter_text_verbatim_witness:
  "map submit_text (snd (handleEnter None \<lparr>inputValue = js_str ''  hi '', selectedMode = None\<rparr>))
     = [js_str ''  hi '']
   \<and> js_str ''  hi '' \<noteq> trim (js_str ''  hi '')"
proof -
  let ?c = "\<lparr>inputValue = js_str ''  hi '', selectedMode = None\<rparr>"
  have a: "\<not> shift_held None"
    by (simp add: shift_held_def)
  have b: "trim (inputValue ?c) \<noteq> []"
    by (simp add: trim_hi) (simp add: js_str_def)
  have "map submit_text (snd (handleEnter None ?c)) = [inputValue ?c]"
    by (rule handleEnter_text_verbatim [OF a b])
  moreover have "js_str ''  hi '' \<noteq> trim (js_str ''  hi '')"
    by (simp add: trim_hi) (simp add: js_str_def)
  ultimately show ?thesis
    by simp
qed

end
